theory Spec2Isabelle
  imports Complex_Main
begin

text \<open>
  A model of \<open>bot.py\<close>, the buy-alert bot: the test of a transaction against the watched
  address and the minimum purchase, the Telegram functions, the processing of a block, the
  websocket listener with its retry, the reminder timer and the start-up check. Each
  function of the source is a function here that returns the list of its effects and
  how it ended; what the network and the libraries answer is a parameter.
\<close>

section \<open>Data model of bot.py\<close>

text \<open>
  Strings are ASCII character lists (addresses and hashes are hexadecimal text).
  \<open>lower\<close> is Python's \<open>str.lower()\<close> on such strings: the letters A..Z move to
  a..z, every other character stays.
\<close>

definition lower_char :: "char \<Rightarrow> char" where
  "lower_char c =
     (case map_of (zip ''ABCDEFGHIJKLMNOPQRSTUVWXYZ'' ''abcdefghijklmnopqrstuvwxyz'') c of
        None \<Rightarrow> c
      | Some d \<Rightarrow> d)"

definition lower :: "string \<Rightarrow> string" where
  "lower s = map lower_char s"

text \<open>
  The exceptions the program can meet. \<open>is_Exception e\<close> says that \<open>e\<close> is caught by
  \<open>except Exception\<close>: \<open>asyncio.CancelledError\<close> and \<open>SystemExit\<close> derive from
  \<open>BaseException\<close> only (Python 3.8 and later) and pass through such a handler.
  \<open>TelegramError\<close> is the delivery failure of the messaging library, the spec's NotifyError.
\<close>

datatype exn =
    TelegramError
  | RuntimeError
  | ValueError
  | AttributeError
  | OtherException
  | CancelledError
  | SystemExit nat

fun is_Exception :: "exn \<Rightarrow> bool" where
  "is_Exception CancelledError = False"
| "is_Exception (SystemExit n) = False"
| "is_Exception e = True"

text \<open>
  The four settings read from the environment (lines 26-29): \<open>os.environ.get\<close> gives
  \<open>None\<close> for a variable that is not set.
\<close>

record config =
  TELEGRAM_BOT_TOKEN :: "string option"
  TELEGRAM_CHAT_ID :: "string option"
  QUICKNODE_WSS_URL :: "string option"
  TOKEN_CONTRACT_ADDRESS :: "string option"

text \<open>
  A transaction as \<open>get_block(..., full_transactions=True)\<close> returns it: \<open>to\<close> is
  \<open>None\<close> for a contract creation, \<open>value\<close> is a Python integer (wei), the hash is kept
  in the hexadecimal text that \<open>w3.toHex\<close> renders.
\<close>

record tx =
  tx_to :: "string option"
  tx_value :: int
  tx_hash :: string
  tx_from :: string

text \<open>Python truthiness of an optional string: \<open>None\<close> and the empty string are false.\<close>

fun truthy :: "string option \<Rightarrow> bool" where
  "truthy None = False"
| "truthy (Some s) = (s \<noteq> [])"

section \<open>The threshold\<close>

text \<open>
  \<open>MIN_BNB_PURCHASE = 0.025\<close> (line 32) is a Python float literal: the IEEE 754 double
  nearest to 1/40, which is 7205759403792794 / 2^58 = 3602879701896397 / 2^57, a little
  more than 1/40. \<open>Decimal('0.025') >= 0.025\<close> compares the exact values.
\<close>

definition MIN_BNB_PURCHASE :: rat where
  "MIN_BNB_PURCHASE = 3602879701896397 / 2 ^ 57"

text \<open>
  \<open>w3.fromWei(number, 'ether')\<close> (line 113), as the library computes it: 0 for 0,
  \<open>ValueError\<close> outside 0 .. 2^256 - 1, else the exact decimal quotient by 10^18
  (the division runs at 999 digits of precision, which loses nothing on 78-digit inputs).
\<close>

definition fromWei :: "int \<Rightarrow> exn + rat" where
  "fromWei number =
     (if number = 0 then Inr 0
      else if number < 0 \<or> number > 2 ^ 256 - 1 then Inl ValueError
      else Inr (of_int number / 10 ^ 18))"

text \<open>
  Lines 112-116, the test of one transaction. The result is the qualifying event
  \<open>(tx_hash, bnb_value, buyer_address)\<close>, or \<open>None\<close>, or the exception raised on the way:
  \<open>TOKEN_CONTRACT_ADDRESS.lower()\<close> raises \<open>AttributeError\<close> on \<open>None\<close>, and is reached
  only when \<open>tx.to\<close> is truthy (\<open>and\<close> short-circuits).
\<close>

definition address_matches :: "string option \<Rightarrow> tx \<Rightarrow> exn + bool" where
  "address_matches addr t =
     (case tx_to t of
        None \<Rightarrow> Inr False
      | Some r \<Rightarrow>
          if \<not> truthy (Some r) then Inr False
          else (case addr of
                  None \<Rightarrow> Inl AttributeError
                | Some a \<Rightarrow> Inr (lower r = lower a)))"

definition qualifying :: "string option \<Rightarrow> tx \<Rightarrow> exn + (string \<times> rat \<times> string) option" where
  "qualifying addr t =
     (case address_matches addr t of
        Inl e \<Rightarrow> Inl e
      | Inr False \<Rightarrow> Inr None
      | Inr True \<Rightarrow>
          (case fromWei (tx_value t) of
             Inl e \<Rightarrow> Inl e
           | Inr bnb_value \<Rightarrow>
               if bnb_value \<ge> MIN_BNB_PURCHASE
               then Inr (Some (tx_hash t, bnb_value, tx_from t))
               else Inr None))"

section \<open>Effects, outcomes and exception handling\<close>

text \<open>
  What the program does to the outside world is recorded as a list of effects, in order.
  A \<open>print\<close> of a literal keeps its text; a \<open>print\<close> of an f-string is a \<open>message\<close>
  with the interpolated values.
\<close>

record alert =
  amount :: rat
  buyer :: string
  tx_link :: string

datatype message =
    Sent_buy_alert string
  | Error_sending_alert exn
  | Unexpected_error_alert exn
  | Error_sending_reminder exn
  | Unexpected_error_reminder exn
  | Processing_block nat nat
  | Found_qualifying string string rat
  | Error_handling_block nat exn
  | Error_receiving_block exn
  | Initial_connection_failed exn
  | Error_initializing_http exn

datatype effect =
    Print string
  | Printf message
  | Sleep nat
  | GetBlock nat
  | SendPhoto alert
  | SendMessage
  | TimerStart nat
  | Connect
  | HttpConnect

text \<open>
  A piece of code returns, raises, or (the listener only) stays blocked on the network
  with nothing more to read in the finite input the model is given.
\<close>

datatype outcome = Returns | Raises exn | Blocks

type_synonym run = "effect list \<times> outcome"

definition prepend :: "effect list \<Rightarrow> run \<Rightarrow> run" where
  "prepend es r = (es @ fst r, snd r)"

text \<open>\<open>seq a b\<close>: statement \<open>b\<close> runs after \<open>a\<close> only when \<open>a\<close> returned.\<close>

definition seq :: "run \<Rightarrow> run \<Rightarrow> run" where
  "seq a b = (case snd a of Returns \<Rightarrow> prepend (fst a) b | _ \<Rightarrow> a)"

text \<open>
  \<open>try: body except ...\<close>: \<open>handlers e\<close> is the clause that catches \<open>e\<close>, if any.
  An exception no clause catches goes on; what the handler itself raises goes on too.
\<close>

definition try_except :: "run \<Rightarrow> (exn \<Rightarrow> run option) \<Rightarrow> run" where
  "try_except body handlers =
     (case snd body of
        Raises e \<Rightarrow> (case handlers e of None \<Rightarrow> body | Some h \<Rightarrow> prepend (fst body) h)
      | _ \<Rightarrow> body)"

text \<open>
  \<open>asyncio.run(coro)\<close> raises \<open>RuntimeError\<close> when an event loop is already running in
  the calling thread (the coroutine object is dropped, its body never runs); otherwise it
  runs the coroutine to its end. \<open>running\<close> is that state of the calling thread.
\<close>

definition asyncio_run :: "bool \<Rightarrow> run \<Rightarrow> run" where
  "asyncio_run running coro = (if running then ([], Raises RuntimeError) else coro)"

text \<open>
  The outside world: whether \<open>Bot(token=...)\<close> accepts the token (line 37; the
  library raises an ordinary exception when it does not), the result of the HTTP
  provider's connectivity check (lines 172-174: an exception, or what \<open>is_connected()\<close>
  returns), the content of each block, whether \<open>bot.send_photo\<close> raises for an alert,
  and the websocket: the outcome of each connection attempt in turn, a refusal or a
  subscription delivering a sequence of \<open>receive()\<close> results.
\<close>

datatype recv = Header nat | Receive_raises exn

datatype conn = Refused exn | Subscribed "recv list"

record world =
  Bot_accepts :: "string option \<Rightarrow> bool"
  http_provider :: "exn + bool"
  get_block :: "nat \<Rightarrow> exn + tx list"
  send_photo :: "alert \<Rightarrow> exn option"
  websocket :: "conn list"

section \<open>Telegram functions\<close>

text \<open>
  \<open>send_telegram_alert\<close> (lines 41-69). \<open>buy_alert\<close> holds the values the caption
  interpolates; the buyer is shown as \<open>buyer[:6]...buyer[-4:]\<close> (a slice never raises,
  and \<open>s[-4:]\<close> is all of \<open>s\<close> when it is shorter than 4).
\<close>

definition buy_alert :: "string \<Rightarrow> rat \<Rightarrow> string \<Rightarrow> alert" where
  "buy_alert tx_hash' amount' buyer_address =
     \<lparr>amount = amount',
      buyer = take 6 buyer_address @ ''...'' @ drop (length buyer_address - 4) buyer_address,
      tx_link = tx_hash'\<rparr>"

definition send_telegram_alert :: "world \<Rightarrow> string \<Rightarrow> rat \<Rightarrow> string \<Rightarrow> run" where
  "send_telegram_alert w tx_hash' amount' buyer_address =
     try_except
       (seq (case send_photo w (buy_alert tx_hash' amount' buyer_address) of
               None \<Rightarrow> ([SendPhoto (buy_alert tx_hash' amount' buyer_address)], Returns)
             | Some e \<Rightarrow> ([SendPhoto (buy_alert tx_hash' amount' buyer_address)], Raises e))
            ([Printf (Sent_buy_alert tx_hash')], Returns))
       (\<lambda>e. if e = TelegramError then Some ([Printf (Error_sending_alert e)], Returns)
            else if is_Exception e then Some ([Printf (Unexpected_error_alert e)], Returns)
            else None)"

section \<open>Blockchain monitoring\<close>

text \<open>
  The body of the \<open>for\<close> loop of \<open>handle_new_block\<close> (lines 112-119) for one transaction,
  and the loop: a transaction that raises ends the loop.
\<close>

definition process_tx :: "bool \<Rightarrow> world \<Rightarrow> config \<Rightarrow> tx \<Rightarrow> run" where
  "process_tx running w cfg t =
     (case qualifying (TOKEN_CONTRACT_ADDRESS cfg) t of
        Inl e \<Rightarrow> ([], Raises e)
      | Inr None \<Rightarrow> ([], Returns)
      | Inr (Some (tx_hash', bnb_value, buyer_address)) \<Rightarrow>
          seq ([Printf (Found_qualifying tx_hash' buyer_address bnb_value)], Returns)
              (asyncio_run running (send_telegram_alert w tx_hash' bnb_value buyer_address)))"

fun for_tx :: "bool \<Rightarrow> world \<Rightarrow> config \<Rightarrow> tx list \<Rightarrow> run" where
  "for_tx running w cfg [] = ([], Returns)"
| "for_tx running w cfg (t # ts) = seq (process_tx running w cfg t) (for_tx running w cfg ts)"

text \<open>\<open>handle_new_block\<close> (lines 101-121): one \<open>try\<close> around the fetch and the whole loop.\<close>

definition handle_new_block :: "bool \<Rightarrow> world \<Rightarrow> config \<Rightarrow> nat \<Rightarrow> run" where
  "handle_new_block running w cfg block_number =
     try_except
       (case get_block w block_number of
          Inl e \<Rightarrow> ([GetBlock block_number], Raises e)
        | Inr transactions \<Rightarrow>
            seq ([GetBlock block_number,
                  Printf (Processing_block block_number (length transactions))], Returns)
                (for_tx running w cfg transactions))
       (\<lambda>e. if is_Exception e then Some ([Printf (Error_handling_block block_number e)], Returns)
            else None)"

text \<open>
  The \<open>while True\<close> loop of \<open>listen_for_new_blocks\<close> (lines 139-154) over the results of
  \<open>receive()\<close>. It is the body of a coroutine, so an event loop is running in its thread
  when it calls \<open>handle_new_block\<close>. \<open>Returns\<close> here is the \<open>break\<close>.
\<close>

fun while_True :: "world \<Rightarrow> config \<Rightarrow> recv list \<Rightarrow> run" where
  "while_True w cfg [] = ([], Blocks)"
| "while_True w cfg (r # rs) =
     (let body = (case r of
                    Receive_raises e \<Rightarrow> ([], Raises e)
                  | Header block_number \<Rightarrow> handle_new_block True w cfg block_number)
      in case snd body of
           Returns \<Rightarrow> prepend (fst body) (while_True w cfg rs)
         | Blocks \<Rightarrow> body
         | Raises e \<Rightarrow>
             if e = CancelledError
             then (fst body @ [Print ''WebSocket connection was cancelled.''], Returns)
             else if is_Exception e
             then prepend (fst body @ [Printf (Error_receiving_block e), Sleep 2])
                          (while_True w cfg rs)
             else body)"

text \<open>
  \<open>listen_for_new_blocks\<close> (lines 123-159), over the outcomes of the connection attempts.
  The retry of line 159 calls \<open>asyncio.run\<close> from inside the coroutine, that is, with the
  event loop running.
\<close>

fun listen_for_new_blocks :: "world \<Rightarrow> config \<Rightarrow> conn list \<Rightarrow> run" where
  "listen_for_new_blocks w cfg [] =
     ([Print ''Connecting to QuickNode via WebSocket...'', Connect], Blocks)"
| "listen_for_new_blocks w cfg (c # cs) =
     prepend [Print ''Connecting to QuickNode via WebSocket...'']
       (try_except
          (case c of
             Refused e \<Rightarrow> ([Connect], Raises e)
           | Subscribed rs \<Rightarrow> prepend [Connect] (while_True w cfg rs))
          (\<lambda>e. if is_Exception e
               then Some (seq ([Printf (Initial_connection_failed e),
                                Print ''Retrying connection in 5 seconds...'',
                                Sleep 5], Returns)
                              (asyncio_run True (listen_for_new_blocks w cfg cs)))
               else None))"

section \<open>The reminder\<close>

text \<open>
  \<open>send_reminder\<close> (lines 72-98) runs in the thread of a \<open>threading.Timer\<close>, where no event
  loop is running. \<open>res\<close> is what \<open>bot.send_message\<close> does this time: \<open>None\<close> when the
  message is delivered, the exception otherwise.
\<close>

definition send_reminder :: "exn option \<Rightarrow> run" where
  "send_reminder res =
     seq (try_except
            (seq (asyncio_run False
                    (case res of
                       None \<Rightarrow> ([SendMessage], Returns)
                     | Some e \<Rightarrow> ([SendMessage], Raises e)))
                 ([Print ''Sent 30-minute reminder.''], Returns))
            (\<lambda>e. if e = TelegramError then Some ([Printf (Error_sending_reminder e)], Returns)
                 else if is_Exception e then Some ([Printf (Unexpected_error_reminder e)], Returns)
                 else None))
         ([TimerStart (30 * 60)], Returns)"

text \<open>
  Time, in seconds. \<open>stamp d now es\<close> gives each effect of \<open>es\<close> the time at which it
  starts, when the first starts at \<open>now\<close>: sending the message takes \<open>d\<close>, \<open>time.sleep(n)\<close>
  takes \<open>n\<close>, and the rest is counted as instantaneous. A \<open>Timer(n, send_reminder)\<close>
  started at \<open>t\<close> calls \<open>send_reminder\<close> at \<open>t + n\<close>.
\<close>

fun elapsed :: "rat \<Rightarrow> effect \<Rightarrow> rat" where
  "elapsed d SendMessage = d"
| "elapsed d (Sleep n) = of_nat n"
| "elapsed d e = 0"

fun stamp :: "rat \<Rightarrow> rat \<Rightarrow> effect list \<Rightarrow> (rat \<times> effect) list" where
  "stamp d now [] = []"
| "stamp d now (e # es) = (now, e) # stamp d (now + elapsed d e) es"

fun timers :: "(rat \<times> effect) list \<Rightarrow> rat list" where
  "timers [] = []"
| "timers ((t, TimerStart n) # es) = (t + of_nat n) # timers es"
| "timers (e # es) = timers es"

text \<open>
  The reminder's firings. The main block starts the first timer at time \<open>s\<close> (lines 182-184);
  the send of firing \<open>i\<close> has result \<open>result (att i)\<close> and takes \<open>duration (att i)\<close>; the
  next firing is that of the timer which this call of \<open>send_reminder\<close> starts, if it starts one.
\<close>

record attempt =
  result :: "exn option"
  duration :: rat

fun firing :: "(nat \<Rightarrow> attempt) \<Rightarrow> rat \<Rightarrow> nat \<Rightarrow> rat option" where
  "firing att s 0 = Some (s + of_nat (30 * 60))"
| "firing att s (Suc i) =
     (case firing att s i of
        None \<Rightarrow> None
      | Some t \<Rightarrow>
          (case timers (stamp (duration (att i)) t (fst (send_reminder (result (att i))))) of
             [] \<Rightarrow> None
           | t' # ts \<Rightarrow> Some t'))"

section \<open>The main entry point\<close>

text \<open>
  The main block (lines 162-188). \<open>exit(1)\<close> raises \<open>SystemExit(1)\<close>. The main thread has
  no event loop running when it calls \<open>asyncio.run\<close> on line 188.
\<close>

definition main :: "world \<Rightarrow> config \<Rightarrow> run" where
  "main w cfg =
     (if \<not> list_all truthy [TELEGRAM_BOT_TOKEN cfg, TELEGRAM_CHAT_ID cfg,
                             QUICKNODE_WSS_URL cfg, TOKEN_CONTRACT_ADDRESS cfg]
      then ([Print ''Error: One or more required environment variables are not set.'',
             Print ''Please set TEL_BOT_TOKEN, TEL_CHAT_ID, QN_WSS_URL, and TOKEN_CONTRACT_ADDRESS.''],
            Raises (SystemExit 1))
      else
        seq ([Print ''Bot is starting...''], Returns)
       (seq (try_except
               (case http_provider w of
                  Inl e \<Rightarrow> ([HttpConnect], Raises e)
                | Inr is_connected \<Rightarrow>
                    if \<not> is_connected then ([HttpConnect], Raises OtherException)
                    else ([HttpConnect], Returns))
               (\<lambda>e. if is_Exception e
                    then Some ([Printf (Error_initializing_http e)], Raises (SystemExit 1))
                    else None))
       (seq ([Print ''Starting 30-minute reminder timer...'',
              TimerStart (30 * 60),
              Print ''Starting blockchain listener...''], Returns)
            (asyncio_run False (listen_for_new_blocks w cfg (websocket w))))))"

text \<open>
  The process: the module-level statements (\<open>bot = Bot(token=TELEGRAM_BOT_TOKEN)\<close>, line 37)
  run before the main block. The exit status: \<open>exit(n)\<close> gives \<open>n\<close>, any other exception
  that nothing catches ends the interpreter with status 1, and a process that is still
  blocked has none.
\<close>

definition program :: "world \<Rightarrow> config \<Rightarrow> run" where
  "program w cfg =
     seq (if Bot_accepts w (TELEGRAM_BOT_TOKEN cfg) then ([], Returns)
          else ([], Raises OtherException))
         (main w cfg)"

fun exit_status :: "outcome \<Rightarrow> nat option" where
  "exit_status Returns = Some 0"
| "exit_status (Raises (SystemExit n)) = Some n"
| "exit_status (Raises e) = Some 1"
| "exit_status Blocks = None"

section \<open>Reading a trace\<close>

text \<open>The alerts handed to \<open>bot.send_photo\<close>, and the number of connection attempts.\<close>

fun photos :: "effect list \<Rightarrow> alert list" where
  "photos [] = []"
| "photos (SendPhoto a # es) = a # photos es"
| "photos (e # es) = photos es"

definition connects :: "effect list \<Rightarrow> nat" where
  "connects es = length (filter (\<lambda>e. e = Connect) es)"

text \<open>
  The alerts a list of transactions calls for: one per qualifying transaction, in the
  list's order.
\<close>

definition alerts_due :: "config \<Rightarrow> tx list \<Rightarrow> alert list" where
  "alerts_due cfg ts =
     concat (map (\<lambda>t. case qualifying (TOKEN_CONTRACT_ADDRESS cfg) t of
                         Inr (Some (h, v, b)) \<Rightarrow> [buy_alert h v b]
                       | _ \<Rightarrow> []) ts)"

text \<open>A send that succeeded, or failed with an exception that \<open>except Exception\<close> catches.\<close>

fun sent_or_failed :: "exn option \<Rightarrow> bool" where
  "sent_or_failed None = True"
| "sent_or_failed (Some e) = is_Exception e"

text \<open>
  The settings that are missing, by the names of their environment variables: those the
  start-up check of line 164 finds false.
\<close>

definition missing_items :: "config \<Rightarrow> string list" where
  "missing_items cfg =
     map fst (filter (\<lambda>(name, v). \<not> truthy v)
       [(''TEL_BOT_TOKEN'', TELEGRAM_BOT_TOKEN cfg),
        (''TEL_CHAT_ID'', TELEGRAM_CHAT_ID cfg),
        (''QN_WSS_URL'', QUICKNODE_WSS_URL cfg),
        (''TOKEN_CONTRACT_ADDRESS'', TOKEN_CONTRACT_ADDRESS cfg)])"

text \<open>
  The notifier's own log lines, and a run apart from them: its other effects, in order,
  and how it ended. \<open>all_delivered w\<close> is the world \<open>w\<close> with every delivery succeeding.
\<close>

fun notifier_log :: "effect \<Rightarrow> bool" where
  "notifier_log (Printf (Sent_buy_alert h)) = True"
| "notifier_log (Printf (Error_sending_alert e)) = True"
| "notifier_log (Printf (Unexpected_error_alert e)) = True"
| "notifier_log e = False"

definition apart_from_notifier_log :: "run \<Rightarrow> run" where
  "apart_from_notifier_log r = (filter (\<lambda>e. \<not> notifier_log e) (fst r), snd r)"

definition all_delivered :: "world \<Rightarrow> world" where
  "all_delivered w = w\<lparr>send_photo := (\<lambda>a. None)\<rparr>"

section \<open>Example inputs\<close>

text \<open>
  A configuration with all four settings, transactions sent to the watched address
  (written in lower case, as a node may return it), a world that serves one block, and
  reminder sends that take two seconds each, the second of them failing.
\<close>

definition example_config :: config where
  "example_config =
     \<lparr>TELEGRAM_BOT_TOKEN = Some ''8322021979:AAEV'',
      TELEGRAM_CHAT_ID = Some ''-1001234'',
      QUICKNODE_WSS_URL = Some ''wss://example.quiknode.pro/'',
      TOKEN_CONTRACT_ADDRESS = Some ''0x2119de8f257d27662991198389E15Bf8d1F4aB24''\<rparr>"

definition example_tx :: "int \<Rightarrow> string \<Rightarrow> tx" where
  "example_tx wei h =
     \<lparr>tx_to = Some ''0x2119de8f257d27662991198389e15bf8d1f4ab24'',
      tx_value = wei,
      tx_hash = h,
      tx_from = ''0x52908400098527886E0F7030069857D2E4169EE7''\<rparr>"

definition example_creation :: tx where
  "example_creation =
     \<lparr>tx_to = None,
      tx_value = 30000000000000000,
      tx_hash = ''0xc0'',
      tx_from = ''0x52908400098527886E0F7030069857D2E4169EE7''\<rparr>"

definition example_world :: "tx list \<Rightarrow> exn option \<Rightarrow> conn list \<Rightarrow> world" where
  "example_world transactions photo_result conns =
     \<lparr>Bot_accepts = truthy,
      http_provider = Inr True,
      get_block = (\<lambda>n. Inr transactions),
      send_photo = (\<lambda>a. photo_result),
      websocket = conns\<rparr>"

definition example_attempts :: "nat \<Rightarrow> attempt" where
  "example_attempts i = \<lparr>result = (if i = 1 then Some TelegramError else None), duration = 2\<rparr>"

section \<open>Basic facts\<close>

lemma prepend_pair [simp]: "prepend es (es', r) = (es @ es', r)"
  by (simp add: prepend_def)

lemma fst_prepend [simp]: "fst (prepend es r) = es @ fst r"
  by (simp add: prepend_def)

lemma snd_prepend [simp]: "snd (prepend es r) = snd r"
  by (simp add: prepend_def)

lemma prepend_Nil [simp]: "prepend [] r = r"
  by (simp add: prepend_def)

lemma seq_Returns [simp]: "seq (es, Returns) b = prepend es b"
  by (simp add: seq_def)

lemma seq_Raises [simp]: "seq (es, Raises e) b = (es, Raises e)"
  by (simp add: seq_def)

lemma seq_Blocks [simp]: "seq (es, Blocks) b = (es, Blocks)"
  by (simp add: seq_def)

lemma try_except_Returns [simp]: "try_except (es, Returns) h = (es, Returns)"
  by (simp add: try_except_def)

lemma try_except_Blocks [simp]: "try_except (es, Blocks) h = (es, Blocks)"
  by (simp add: try_except_def)

lemma try_except_Raises [simp]:
  "try_except (es, Raises e) h = (case h e of None \<Rightarrow> (es, Raises e) | Some r \<Rightarrow> prepend es r)"
  by (simp add: try_except_def split: option.splits)

lemma asyncio_run_True [simp]: "asyncio_run True coro = ([], Raises RuntimeError)"
  by (simp add: asyncio_run_def)

lemma asyncio_run_False [simp]: "asyncio_run False coro = coro"
  by (simp add: asyncio_run_def)

lemmas eval_defs =
  qualifying_def address_matches_def fromWei_def MIN_BNB_PURCHASE_def lower_def lower_char_def

lemmas example_defs =
  example_config_def example_tx_def example_creation_def example_world_def

section \<open>The float constant\<close>

text \<open>
  The constant is the double nearest to 1/40: a 53-bit significand over \<open>2^58\<close>, less than
  half a unit in the last place away. In wei, the test \<open>bnb_value >= MIN_BNB_PURCHASE\<close>
  is \<open>value >= 25000000000000002\<close>.
\<close>

lemma MIN_BNB_PURCHASE_nearest_double:
  "MIN_BNB_PURCHASE = 7205759403792794 / 2 ^ 58
   \<and> (2::int) ^ 52 \<le> 7205759403792794 \<and> (7205759403792794::int) < 2 ^ 53
   \<and> \<bar>MIN_BNB_PURCHASE - 1 / 40\<bar> < 1 / 2 ^ 59"
  by (simp add: MIN_BNB_PURCHASE_def)

lemma MIN_BNB_PURCHASE_in_wei:
  "(of_int v / 10 ^ 18 \<ge> MIN_BNB_PURCHASE) = (v \<ge> 25000000000000002)"
proof -
  have "(of_int v / 10 ^ 18 \<ge> MIN_BNB_PURCHASE)
        = ((3602879701896397::rat) * 10 ^ 18 \<le> of_int v * 2 ^ 57)"
    by (simp add: MIN_BNB_PURCHASE_def field_simps)
  also have "\<dots> = ((of_int (3602879701896397 * 10 ^ 18) :: rat) \<le> of_int (v * 2 ^ 57))"
    by simp
  also have "\<dots> = ((3602879701896397::int) * 10 ^ 18 \<le> v * 2 ^ 57)"
    by (rule of_int_le_iff)
  also have "\<dots> = (v \<ge> 25000000000000002)"
    by (simp, arith)
  finally show ?thesis .
qed

section \<open>The threshold evaluation\<close>

lemma length_lower [simp]: "length (lower s) = length s"
  by (simp add: lower_def)

lemma lower_Nil_iff: "lower s = lower a \<Longrightarrow> (s = []) = (a = [])"
  by (metis length_lower length_0_conv)

lemma fromWei_in_range:
  "0 \<le> v \<Longrightarrow> v \<le> 2 ^ 256 - 1 \<Longrightarrow> fromWei v = Inr (of_int v / 10 ^ 18)"
  by (simp add: fromWei_def)

text \<open>
  What lines 112-116 compute, for a non-empty watched address (the start-up check
  guarantees it) and a value in the range of the chain's 256-bit amounts: the event, when
  the recipient is present and equal to the watched address up to case and the value is at
  least 25000000000000002 wei; nothing otherwise.
\<close>

lemma qualifying_iff:
  assumes "a \<noteq> []" and "0 \<le> tx_value t" and "tx_value t \<le> 2 ^ 256 - 1"
  shows "qualifying (Some a) t =
           (if (\<exists>r. tx_to t = Some r \<and> lower r = lower a) \<and> tx_value t \<ge> 25000000000000002
            then Inr (Some (tx_hash t, of_int (tx_value t) / 10 ^ 18, tx_from t))
            else Inr None)"
proof (cases "tx_to t")
  case None
  then show ?thesis by (simp add: qualifying_def address_matches_def)
next
  case (Some r)
  show ?thesis
  proof (cases "lower r = lower a")
    case True
    with assms(1) have "r \<noteq> []" using lower_Nil_iff by blast
    with Some True have am: "address_matches (Some a) t = Inr True"
      by (simp add: address_matches_def)
    from assms(2,3) have fw: "fromWei (tx_value t) = Inr (of_int (tx_value t) / 10 ^ 18)"
      by (rule fromWei_in_range)
    from Some True show ?thesis
      unfolding qualifying_def am fw
      by (simp only: sum.case bool.case MIN_BNB_PURCHASE_in_wei) auto
  next
    case False
    with Some show ?thesis by (simp add: qualifying_def address_matches_def)
  qed
qed

text \<open>
  C1. The claim: a transaction yields a qualifying event exactly when its recipient is
  present, equals the watched address up to case, and its value in native units is at
  least 0.025. The code falls short of it: the transaction below goes to the watched
  address with 25000000000000001 wei, which is more than 0.025 BNB, and line 114 still
  rejects it, because the value is compared with the float constant.
\<close>

theorem value_above_minimum_not_qualifying:
  "qualifying (TOKEN_CONTRACT_ADDRESS example_config) (example_tx 25000000000000001 ''0xa1'') = Inr None
   \<and> tx_to (example_tx 25000000000000001 ''0xa1'') = Some ''0x2119de8f257d27662991198389e15bf8d1f4ab24''
   \<and> lower ''0x2119de8f257d27662991198389e15bf8d1f4ab24''
       = lower (the (TOKEN_CONTRACT_ADDRESS example_config))
   \<and> (of_int (tx_value (example_tx 25000000000000001 ''0xa1'')) / 10 ^ 18 :: rat) \<ge> 25 / 1000"
  by (simp add: example_defs eval_defs)

text \<open>
  C2. The claim: a transaction to the watched address whose value is exactly the minimum,
  0.025 BNB = 25000000000000000 wei, qualifies. In the code it does not: the conversion
  gives exactly 25/1000, the float constant is larger, the comparison of line 114 is
  false, and the loop body does nothing for this transaction, whether or not an event loop
  is running.
\<close>

theorem exact_minimum_not_qualifying:
  "fromWei 25000000000000000 = Inr (25 / 1000)
   \<and> \<not> (25 / 1000 \<ge> MIN_BNB_PURCHASE)
   \<and> qualifying (TOKEN_CONTRACT_ADDRESS example_config) (example_tx 25000000000000000 ''0xa2'')
       = Inr None
   \<and> process_tx running w example_config (example_tx 25000000000000000 ''0xa2'') = ([], Returns)"
  by (simp add: example_defs eval_defs process_tx_def)

text \<open>
  C4. A transaction with no recipient (a contract creation) produces no alert and raises
  no error: the test yields nothing, and the loop body returns with no effect, for any
  configured address (even a missing one) and in any calling context.
\<close>

theorem absent_recipient_no_alert_no_error:
  "tx_to t = None \<Longrightarrow>
     qualifying addr t = Inr None \<and> process_tx running w cfg t = ([], Returns)"
  by (simp add: qualifying_def address_matches_def process_tx_def)

theorem absent_recipient_witness:
  "tx_to example_creation = None
   \<and> qualifying (TOKEN_CONTRACT_ADDRESS example_config) example_creation = Inr None
   \<and> process_tx False (example_world [example_creation] None []) example_config example_creation
       = ([], Returns)"
  using absent_recipient_no_alert_no_error
    [of example_creation "TOKEN_CONTRACT_ADDRESS example_config" False
        "example_world [example_creation] None []" example_config]
  by (simp add: example_creation_def)

section \<open>The notifier\<close>

lemma photos_append [simp]: "photos (es @ es') = photos es @ photos es'"
  by (induction es rule: photos.induct) simp_all

lemma send_telegram_alert_result:
  "send_telegram_alert w h v b =
     (case send_photo w (buy_alert h v b) of
        None \<Rightarrow> ([SendPhoto (buy_alert h v b), Printf (Sent_buy_alert h)], Returns)
      | Some e \<Rightarrow>
          if e = TelegramError
          then ([SendPhoto (buy_alert h v b), Printf (Error_sending_alert e)], Returns)
          else if is_Exception e
          then ([SendPhoto (buy_alert h v b), Printf (Unexpected_error_alert e)], Returns)
          else ([SendPhoto (buy_alert h v b)], Raises e))"
  by (simp add: send_telegram_alert_def split: option.splits)

lemma send_telegram_alert_swallows:
  "sent_or_failed (send_photo w (buy_alert h v b)) \<Longrightarrow>
     snd (send_telegram_alert w h v b) = Returns
     \<and> photos (fst (send_telegram_alert w h v b)) = [buy_alert h v b]"
  by (cases "send_photo w (buy_alert h v b)") (simp_all add: send_telegram_alert_result)

section \<open>Block processing\<close>

text \<open>
  Called with no event loop running, the loop over a block hands one alert per qualifying
  transaction to \<open>bot.send_photo\<close>, in the block's order, whether each send succeeds or fails.
\<close>

lemma for_tx_no_loop_alerts:
  assumes "\<forall>t \<in> set ts. \<forall>e. qualifying (TOKEN_CONTRACT_ADDRESS cfg) t \<noteq> Inl e"
    and "\<forall>a. sent_or_failed (send_photo w a)"
  shows "snd (for_tx False w cfg ts) = Returns
         \<and> photos (fst (for_tx False w cfg ts)) = alerts_due cfg ts"
  using assms(1)
proof (induction ts)
  case Nil
  then show ?case by (simp add: alerts_due_def)
next
  case (Cons t ts)
  then have ih: "snd (for_tx False w cfg ts) = Returns"
     "photos (fst (for_tx False w cfg ts)) = alerts_due cfg ts"
    by simp_all
  show ?case
  proof (cases "qualifying (TOKEN_CONTRACT_ADDRESS cfg) t")
    case (Inl e)
    with Cons.prems show ?thesis by simp
  next
    case (Inr ev)
    show ?thesis
    proof (cases ev)
      case None
      with Inr ih show ?thesis by (simp add: process_tx_def alerts_due_def)
    next
      case (Some hvb)
      obtain h v b where hvb: "hvb = (h, v, b)" by (cases hvb)
      from assms(2) have "sent_or_failed (send_photo w (buy_alert h v b))" by simp
      from send_telegram_alert_swallows [OF this]
      obtain es where sa: "send_telegram_alert w h v b = (es, Returns)" "photos es = [buy_alert h v b]"
        by (cases "send_telegram_alert w h v b") auto
      with Inr Some hvb ih show ?thesis
        by (simp add: process_tx_def alerts_due_def)
    qed
  qed
qed

text \<open>
  Called from the listener, that is with the event loop running, \<open>asyncio.run\<close> raises
  at the first qualifying transaction, and nothing is ever handed to \<open>bot.send_photo\<close>.
\<close>

lemma process_tx_in_loop:
  "process_tx True w cfg t =
     (case qualifying (TOKEN_CONTRACT_ADDRESS cfg) t of
        Inl e \<Rightarrow> ([], Raises e)
      | Inr None \<Rightarrow> ([], Returns)
      | Inr (Some (h, v, b)) \<Rightarrow> ([Printf (Found_qualifying h b v)], Raises RuntimeError))"
  by (simp add: process_tx_def split: sum.splits option.splits)

lemma for_tx_in_loop_no_photos: "photos (fst (for_tx True w cfg ts)) = []"
proof (induction ts)
  case Nil
  show ?case by simp
next
  case (Cons t ts)
  then show ?case
    by (cases "process_tx True w cfg t")
       (auto simp: process_tx_in_loop seq_def split: sum.splits option.splits outcome.splits)
qed

lemma for_tx_append:
  "snd (for_tx running w cfg pre) = Returns \<Longrightarrow>
     for_tx running w cfg (pre @ ts)
       = prepend (fst (for_tx running w cfg pre)) (for_tx running w cfg ts)"
proof (induction pre)
  case Nil
  show ?case by simp
next
  case (Cons t pre)
  then show ?case
    by (cases "process_tx running w cfg t") (auto simp: seq_def prepend_def split: outcome.splits)
qed

text \<open>
  C3. The claim: a block with N qualifying transactions produces exactly N buy alerts, in
  the block's order. The program does not do this. \<open>handle_new_block\<close> is called from
  the coroutine \<open>listen_for_new_blocks\<close> (line 147), so \<open>asyncio.run\<close> on line 119 raises
  \<open>RuntimeError\<close> at the first qualifying transaction; the handler of line 120 logs it and
  the rest of the block is dropped. Below, a block with two qualifying transactions: two
  alerts are due, none is sent.
\<close>

theorem no_alert_sent_from_listener:
  "while_True
      (example_world [example_tx 30000000000000000 ''0xb1'', example_tx 50000000000000000 ''0xb2'']
         None [])
      example_config [Header 7] =
     ([GetBlock 7, Printf (Processing_block 7 2),
       Printf (Found_qualifying ''0xb1'' ''0x52908400098527886E0F7030069857D2E4169EE7'' (3 / 100)),
       Printf (Error_handling_block 7 RuntimeError)], Blocks)
   \<and> length (alerts_due example_config
        [example_tx 30000000000000000 ''0xb1'', example_tx 50000000000000000 ''0xb2'']) = 2
   \<and> photos (fst (program
        (example_world [example_tx 30000000000000000 ''0xb1'', example_tx 50000000000000000 ''0xb2'']
           None [Subscribed [Header 7]])
        example_config)) = []"
  by (simp add: example_defs eval_defs process_tx_in_loop handle_new_block_def alerts_due_def
      program_def main_def)

text \<open>
  C9. Errors are isolated per block, not per transaction. When the loop body raises an
  \<open>Exception\<close> at a transaction of a block, \<open>handle_new_block\<close> logs it and returns: its
  trace ends there, whatever transactions follow in the block, so they are skipped and
  produce no alert. The listener's loop then goes on with the next header.
\<close>

theorem exception_skips_rest_of_block:
  assumes "get_block w n = Inr (pre @ t # post)"
    and "snd (for_tx running w cfg pre) = Returns"
    and "process_tx running w cfg t = (es, Raises e)"
    and "is_Exception e"
  shows "handle_new_block running w cfg n =
           (GetBlock n # Printf (Processing_block n (length pre + 1 + length post))
              # fst (for_tx running w cfg pre) @ es @ [Printf (Error_handling_block n e)],
            Returns)
         \<and> (running \<longrightarrow>
              while_True w cfg (Header n # rs) =
                prepend (fst (handle_new_block running w cfg n)) (while_True w cfg rs))"
proof -
  have "for_tx running w cfg (pre @ t # post) = (fst (for_tx running w cfg pre) @ es, Raises e)"
    using assms(2,3) by (simp add: for_tx_append)
  with assms(1,4) have h: "handle_new_block running w cfg n =
           (GetBlock n # Printf (Processing_block n (length pre + 1 + length post))
              # fst (for_tx running w cfg pre) @ es @ [Printf (Error_handling_block n e)],
            Returns)"
    by (simp add: handle_new_block_def)
  then show ?thesis by (cases running) (simp_all add: Let_def)
qed

theorem exception_skips_rest_of_block_witness:
  "handle_new_block False
      (example_world [example_tx 30000000000000000 ''0xd1'', example_tx (2 ^ 256) ''0xd2'',
                      example_tx 40000000000000000 ''0xd3''] None []) example_config 7 =
     ([GetBlock 7, Printf (Processing_block 7 3),
       Printf (Found_qualifying ''0xd1'' ''0x52908400098527886E0F7030069857D2E4169EE7'' (3 / 100)),
       SendPhoto \<lparr>amount = 3 / 100, buyer = ''0x5290...9EE7'', tx_link = ''0xd1''\<rparr>,
       Printf (Sent_buy_alert ''0xd1''),
       Printf (Error_handling_block 7 ValueError)], Returns)
   \<and> while_True
      (example_world [example_tx (2 ^ 256) ''0xd2'', example_tx 40000000000000000 ''0xd3''] None [])
      example_config [Header 7, Header 8] =
     ([GetBlock 7, Printf (Processing_block 7 2), Printf (Error_handling_block 7 ValueError),
       GetBlock 8, Printf (Processing_block 8 2), Printf (Error_handling_block 8 ValueError)], Blocks)"
proof -
  let ?t1 = "example_tx 30000000000000000 ''0xd1''"
  let ?t2 = "example_tx (2 ^ 256) ''0xd2''"
  let ?t3 = "example_tx 40000000000000000 ''0xd3''"
  let ?w = "example_world [?t1, ?t2, ?t3] None []"
  let ?w' = "example_world [?t2, ?t3] None []"
  have g: "get_block ?w 7 = Inr ([?t1] @ ?t2 # [?t3])"
    by (simp add: example_world_def)
  have p1: "for_tx False ?w example_config [?t1] =
     ([Printf (Found_qualifying ''0xd1'' ''0x52908400098527886E0F7030069857D2E4169EE7'' (3 / 100)),
       SendPhoto \<lparr>amount = 3 / 100, buyer = ''0x5290...9EE7'', tx_link = ''0xd1''\<rparr>,
       Printf (Sent_buy_alert ''0xd1'')], Returns)"
    by (simp add: example_defs eval_defs process_tx_def send_telegram_alert_result buy_alert_def)
  have p2: "process_tx r v example_config ?t2 = ([], Raises ValueError)" for r v
    by (simp add: example_defs eval_defs process_tx_def)
  have a: "handle_new_block False ?w example_config 7 =
     ([GetBlock 7, Printf (Processing_block 7 3),
       Printf (Found_qualifying ''0xd1'' ''0x52908400098527886E0F7030069857D2E4169EE7'' (3 / 100)),
       SendPhoto \<lparr>amount = 3 / 100, buyer = ''0x5290...9EE7'', tx_link = ''0xd1''\<rparr>,
       Printf (Sent_buy_alert ''0xd1''),
       Printf (Error_handling_block 7 ValueError)], Returns)"
    using exception_skips_rest_of_block [where cfg = example_config and rs = "[]", OF g _ p2] p1
    by simp
  have g': "get_block ?w' m = Inr ([] @ ?t2 # [?t3])" for m
    by (simp add: example_world_def)
  have b: "handle_new_block True ?w' example_config m =
       ([GetBlock m, Printf (Processing_block m 2), Printf (Error_handling_block m ValueError)], Returns)"
      "while_True ?w' example_config (Header m # rs) =
         prepend (fst (handle_new_block True ?w' example_config m)) (while_True ?w' example_config rs)"
      for m rs
    using exception_skips_rest_of_block
        [where cfg = example_config and running = True and rs = rs and n = m, OF g' _ p2]
    by simp_all
  have c: "while_True ?w' example_config [Header 7, Header 8] =
     ([GetBlock 7, Printf (Processing_block 7 2), Printf (Error_handling_block 7 ValueError),
       GetBlock 8, Printf (Processing_block 8 2), Printf (Error_handling_block 8 ValueError)], Blocks)"
    by (simp only: b) simp
  from a c show ?thesis by simp
qed

section \<open>Delivery failures\<close>

text \<open>
  What can leave the loop over a block, the block handler and the listener's loop. The
  loop body raises only exceptions that \<open>except Exception\<close> catches, so
  \<open>handle_new_block\<close> returns whenever the fetch was not cancelled, the \<open>while\<close> loop
  then takes the next header, and nothing that the \<open>while\<close> loop raises reaches the retry
  handler of line 155.
\<close>

lemma qualifying_raises_Exception: "qualifying addr t = Inl e \<Longrightarrow> is_Exception e"
  by (auto simp: qualifying_def address_matches_def fromWei_def
           split: option.splits if_splits sum.splits bool.splits)

lemma process_tx_outcome:
  assumes "running \<or> (\<forall>a. sent_or_failed (send_photo w a))"
  shows "snd (process_tx running w cfg t) = Returns
         \<or> (\<exists>e. snd (process_tx running w cfg t) = Raises e \<and> is_Exception e)"
proof (cases "qualifying (TOKEN_CONTRACT_ADDRESS cfg) t")
  case (Inl e)
  then show ?thesis by (simp add: process_tx_def qualifying_raises_Exception)
next
  case (Inr ev)
  show ?thesis
  proof (cases ev)
    case None
    with Inr show ?thesis by (simp add: process_tx_def)
  next
    case (Some hvb)
    obtain h v b where hvb: "hvb = (h, v, b)" by (cases hvb)
    show ?thesis
    proof (cases running)
      case True
      with Inr Some hvb show ?thesis by (simp add: process_tx_def)
    next
      case False
      with assms have "sent_or_failed (send_photo w (buy_alert h v b))" by simp
      from send_telegram_alert_swallows [OF this] False Inr Some hvb
      show ?thesis by (simp add: process_tx_def)
    qed
  qed
qed

lemma for_tx_outcome:
  assumes "running \<or> (\<forall>a. sent_or_failed (send_photo w a))"
  shows "snd (for_tx running w cfg ts) = Returns
         \<or> (\<exists>e. snd (for_tx running w cfg ts) = Raises e \<and> is_Exception e)"
proof (induction ts)
  case Nil
  show ?case by simp
next
  case (Cons t ts)
  from process_tx_outcome [OF assms, of cfg t] Cons show ?case
    by (auto simp: seq_def)
qed

lemma handle_new_block_returns:
  assumes "running \<or> (\<forall>a. sent_or_failed (send_photo w a))"
    and "\<forall>e. get_block w n = Inl e \<longrightarrow> is_Exception e"
  shows "snd (handle_new_block running w cfg n) = Returns"
proof (cases "get_block w n")
  case (Inl e)
  with assms(2) show ?thesis by (simp add: handle_new_block_def)
next
  case (Inr ts)
  from for_tx_outcome [OF assms(1), of cfg ts] Inr show ?thesis
    by (auto simp: handle_new_block_def try_except_def)
qed

lemma while_True_next:
  assumes "\<forall>e. get_block w n = Inl e \<longrightarrow> is_Exception e"
  shows "while_True w cfg (Header n # rs)
           = prepend (fst (handle_new_block True w cfg n)) (while_True w cfg rs)"
  using handle_new_block_returns [of True w n cfg] assms by (simp add: Let_def)

lemma while_True_raises_no_Exception:
  "snd (while_True w cfg rs) = Raises e \<Longrightarrow> \<not> is_Exception e"
proof (induction rs)
  case Nil
  then show ?case by simp
next
  case (Cons r rs)
  then show ?case
    by (cases r; cases "snd (handle_new_block True w cfg (case r of Header n \<Rightarrow> n | _ \<Rightarrow> 0))")
       (auto simp: Let_def split: if_splits)
qed

lemma listen_subscribed:
  "listen_for_new_blocks w cfg (Subscribed rs # cs)
     = prepend [Print ''Connecting to QuickNode via WebSocket...'', Connect] (while_True w cfg rs)"
proof (cases "snd (while_True w cfg rs)")
  case (Raises e)
  with while_True_raises_no_Exception have "\<not> is_Exception e" by blast
  with Raises show ?thesis by (simp add: try_except_def prepend_def)
qed (simp_all add: try_except_def prepend_def)


text \<open>
  What \<open>bot.send_photo\<close> answers has no part in what the listener does, and outside the
  event loop it changes the notifier's log line only.
\<close>

lemma all_delivered_simps [simp]:
  "send_photo (all_delivered w) = (\<lambda>a. None)"
  "get_block (all_delivered w) = get_block w"
  "websocket (all_delivered w) = websocket w"
  "http_provider (all_delivered w) = http_provider w"
  "Bot_accepts (all_delivered w) = Bot_accepts w"
  by (simp_all add: all_delivered_def)

lemma for_tx_in_loop_all_delivered:
  "for_tx True (all_delivered w) cfg ts = for_tx True w cfg ts"
  by (induction ts) (simp_all add: process_tx_in_loop)

lemma handle_new_block_in_loop_all_delivered:
  "handle_new_block True (all_delivered w) cfg n = handle_new_block True w cfg n"
  by (simp add: handle_new_block_def for_tx_in_loop_all_delivered cong: sum.case_cong)

lemma while_True_all_delivered: "while_True (all_delivered w) cfg rs = while_True w cfg rs"
  by (induction rs) (simp_all add: handle_new_block_in_loop_all_delivered
                   cong: recv.case_cong outcome.case_cong if_cong)

lemma listen_all_delivered:
  "listen_for_new_blocks (all_delivered w) cfg cs = listen_for_new_blocks w cfg cs"
  by (induction cs) (simp_all add: while_True_all_delivered cong: conn.case_cong if_cong)

lemma program_all_delivered: "program (all_delivered w) cfg = program w cfg"
  by (simp add: program_def main_def listen_all_delivered)

lemma apart_pair [simp]:
  "apart_from_notifier_log (es, r) = (filter (\<lambda>e. \<not> notifier_log e) es, r)"
  by (simp add: apart_from_notifier_log_def)

lemma process_tx_apart:
  assumes "\<forall>a. sent_or_failed (send_photo w a)"
  shows "apart_from_notifier_log (process_tx False w cfg t)
           = apart_from_notifier_log (process_tx False (all_delivered w) cfg t)"
proof (cases "qualifying (TOKEN_CONTRACT_ADDRESS cfg) t")
  case (Inl e)
  then show ?thesis by (simp add: process_tx_def)
next
  case (Inr ev)
  show ?thesis
  proof (cases ev)
    case None
    with Inr show ?thesis by (simp add: process_tx_def)
  next
    case (Some hvb)
    obtain h v b where hvb: "hvb = (h, v, b)" by (cases hvb)
    from assms have "sent_or_failed (send_photo w (buy_alert h v b))" by simp
    then have "apart_from_notifier_log (send_telegram_alert w h v b)
                 = ([SendPhoto (buy_alert h v b)], Returns)"
      by (cases "send_photo w (buy_alert h v b)") (simp_all add: send_telegram_alert_result)
    moreover have "apart_from_notifier_log (send_telegram_alert (all_delivered w) h v b)
                 = ([SendPhoto (buy_alert h v b)], Returns)"
      by (simp add: send_telegram_alert_result)
    ultimately show ?thesis using Inr Some hvb
      by (simp add: process_tx_def apart_from_notifier_log_def)
  qed
qed

lemma seq_apart:
  assumes "apart_from_notifier_log a = apart_from_notifier_log a'"
    and "apart_from_notifier_log b = apart_from_notifier_log b'"
  shows "apart_from_notifier_log (seq a b) = apart_from_notifier_log (seq a' b')"
proof -
  obtain es r where a: "a = (es, r)" by (cases a)
  obtain es' r' where a': "a' = (es', r')" by (cases a')
  obtain bs s where b: "b = (bs, s)" by (cases b)
  obtain bs' s' where b': "b' = (bs', s')" by (cases b')
  from assms show ?thesis unfolding a a' b b' by (cases r) auto
qed

lemma try_except_apart:
  assumes "apart_from_notifier_log body = apart_from_notifier_log body'"
  shows "apart_from_notifier_log (try_except body h) = apart_from_notifier_log (try_except body' h)"
proof -
  obtain es r where a: "body = (es, r)" by (cases body)
  obtain es' r' where a': "body' = (es', r')" by (cases body')
  from assms show ?thesis unfolding a a'
    by (cases r) (auto simp: prepend_def split: option.splits)
qed

lemma for_tx_apart:
  assumes "\<forall>a. sent_or_failed (send_photo w a)"
  shows "apart_from_notifier_log (for_tx False w cfg ts)
           = apart_from_notifier_log (for_tx False (all_delivered w) cfg ts)"
proof (induction ts)
  case Nil
  show ?case by simp
next
  case (Cons t ts)
  from process_tx_apart [OF assms, of cfg t] Cons show ?case
    unfolding for_tx.simps by (rule seq_apart)
qed

lemma handle_new_block_apart:
  assumes "\<forall>a. sent_or_failed (send_photo w a)"
  shows "apart_from_notifier_log (handle_new_block running w cfg n)
           = apart_from_notifier_log (handle_new_block running (all_delivered w) cfg n)"
proof (cases running)
  case True
  then show ?thesis by (simp add: handle_new_block_in_loop_all_delivered)
next
  case False
  show ?thesis
  proof (cases "get_block w n")
    case (Inl e)
    then show ?thesis by (simp add: handle_new_block_def)
  next
    case (Inr ts)
    have "apart_from_notifier_log
            (seq ([GetBlock n, Printf (Processing_block n (length ts))], Returns)
                 (for_tx False w cfg ts))
          = apart_from_notifier_log
            (seq ([GetBlock n, Printf (Processing_block n (length ts))], Returns)
                 (for_tx False (all_delivered w) cfg ts))"
      by (rule seq_apart) (simp_all add: for_tx_apart [OF assms])
    from try_except_apart [OF this] Inr False show ?thesis
      by (simp add: handle_new_block_def)
  qed
qed

text \<open>
  C5. A delivery failure raised while a buy alert is sent (\<open>TelegramError\<close>, or any other
  \<open>Exception\<close>) is caught inside \<open>send_telegram_alert\<close>, which logs it and returns, so
  nothing reaches the caller. The loop over the block goes on with the next transaction.
  When every send succeeds or fails in this way, \<open>handle_new_block\<close> does in any calling
  context what it does when all deliveries succeed, apart from the notifier's log line,
  and it returns. The listener's \<open>while\<close> loop goes on with the next header after every
  block whose fetch was not cancelled, a subscribed listener is that loop and never
  enters the retry handler, and the loop, the listener and the whole process run the same
  whatever the deliveries do.
\<close>

theorem delivery_failure_swallowed:
  assumes "send_photo w (buy_alert h v b) = Some e" and "is_Exception e"
  shows "send_telegram_alert w h v b =
           ([SendPhoto (buy_alert h v b),
             Printf (if e = TelegramError then Error_sending_alert e else Unexpected_error_alert e)],
            Returns)
         \<and> (qualifying (TOKEN_CONTRACT_ADDRESS cfg) t = Inr (Some (h, v, b)) \<longrightarrow>
              for_tx False w cfg (t # ts) =
                prepend (Printf (Found_qualifying h b v) # fst (send_telegram_alert w h v b))
                        (for_tx False w cfg ts))
         \<and> ((\<forall>a. sent_or_failed (send_photo w a)) \<longrightarrow>
              apart_from_notifier_log (handle_new_block running w cfg n)
                = apart_from_notifier_log (handle_new_block running (all_delivered w) cfg n))
         \<and> ((running \<or> (\<forall>a. sent_or_failed (send_photo w a)))
              \<and> (\<forall>e'. get_block w n = Inl e' \<longrightarrow> is_Exception e') \<longrightarrow>
              snd (handle_new_block running w cfg n) = Returns)
         \<and> ((\<forall>e'. get_block w n = Inl e' \<longrightarrow> is_Exception e') \<longrightarrow>
              while_True w cfg (Header n # rs)
                = prepend (fst (handle_new_block True w cfg n)) (while_True w cfg rs))
         \<and> while_True w cfg rs = while_True (all_delivered w) cfg rs
         \<and> listen_for_new_blocks w cfg (Subscribed rs # cs)
             = prepend [Print ''Connecting to QuickNode via WebSocket...'', Connect]
                       (while_True w cfg rs)
         \<and> listen_for_new_blocks w cfg cs = listen_for_new_blocks (all_delivered w) cfg cs
         \<and> program w cfg = program (all_delivered w) cfg"
proof -
  from assms have 1: "send_telegram_alert w h v b =
           ([SendPhoto (buy_alert h v b),
             Printf (if e = TelegramError then Error_sending_alert e else Unexpected_error_alert e)],
            Returns)"
    by (simp add: send_telegram_alert_result)
  from assms have 2: "qualifying (TOKEN_CONTRACT_ADDRESS cfg) t = Inr (Some (h, v, b)) \<longrightarrow>
              for_tx False w cfg (t # ts) =
                prepend (Printf (Found_qualifying h b v) # fst (send_telegram_alert w h v b))
                        (for_tx False w cfg ts)"
    by (simp add: send_telegram_alert_result process_tx_def)
  note 3 = handle_new_block_apart [of w running cfg n]
  note 4 = handle_new_block_returns [of running w n cfg]
  note 5 = while_True_next [of w n cfg rs]
  note 6 = while_True_all_delivered [of w cfg rs, symmetric]
  note 7 = listen_subscribed [of w cfg rs cs]
  note 8 = listen_all_delivered [of w cfg cs, symmetric]
  note 9 = program_all_delivered [of w cfg, symmetric]
  from 1 2 3 4 5 6 7 8 9 show ?thesis by blast
qed


theorem delivery_failure_swallowed_witness:
  "send_photo
      (example_world [example_tx 30000000000000000 ''0xe1'', example_tx 40000000000000000 ''0xe2'']
         (Some TelegramError) [Subscribed [Header 7, Header 8]])
      (buy_alert ''0xe1'' (3 / 100) ''0x52908400098527886E0F7030069857D2E4169EE7'')
     = Some TelegramError
   \<and> is_Exception TelegramError
   \<and> send_telegram_alert
        (example_world [example_tx 30000000000000000 ''0xe1'', example_tx 40000000000000000 ''0xe2'']
           (Some TelegramError) [Subscribed [Header 7, Header 8]])
        ''0xe1'' (3 / 100) ''0x52908400098527886E0F7030069857D2E4169EE7'' =
       ([SendPhoto \<lparr>amount = 3 / 100, buyer = ''0x5290...9EE7'', tx_link = ''0xe1''\<rparr>,
         Printf (Error_sending_alert TelegramError)], Returns)
   \<and> handle_new_block False
        (example_world [example_tx 30000000000000000 ''0xe1'', example_tx 40000000000000000 ''0xe2'']
           (Some TelegramError) [Subscribed [Header 7, Header 8]])
        example_config 7 =
       ([GetBlock 7, Printf (Processing_block 7 2),
         Printf (Found_qualifying ''0xe1'' ''0x52908400098527886E0F7030069857D2E4169EE7'' (3 / 100)),
         SendPhoto \<lparr>amount = 3 / 100, buyer = ''0x5290...9EE7'', tx_link = ''0xe1''\<rparr>,
         Printf (Error_sending_alert TelegramError),
         Printf (Found_qualifying ''0xe2'' ''0x52908400098527886E0F7030069857D2E4169EE7'' (4 / 100)),
         SendPhoto \<lparr>amount = 4 / 100, buyer = ''0x5290...9EE7'', tx_link = ''0xe2''\<rparr>,
         Printf (Error_sending_alert TelegramError)], Returns)
   \<and> apart_from_notifier_log (handle_new_block False
        (all_delivered
          (example_world [example_tx 30000000000000000 ''0xe1'', example_tx 40000000000000000 ''0xe2'']
             (Some TelegramError) [Subscribed [Header 7, Header 8]]))
        example_config 7) =
       ([GetBlock 7, Printf (Processing_block 7 2),
         Printf (Found_qualifying ''0xe1'' ''0x52908400098527886E0F7030069857D2E4169EE7'' (3 / 100)),
         SendPhoto \<lparr>amount = 3 / 100, buyer = ''0x5290...9EE7'', tx_link = ''0xe1''\<rparr>,
         Printf (Found_qualifying ''0xe2'' ''0x52908400098527886E0F7030069857D2E4169EE7'' (4 / 100)),
         SendPhoto \<lparr>amount = 4 / 100, buyer = ''0x5290...9EE7'', tx_link = ''0xe2''\<rparr>], Returns)
   \<and> while_True
        (example_world [example_tx 30000000000000000 ''0xe1'', example_tx 40000000000000000 ''0xe2'']
           (Some TelegramError) [Subscribed [Header 7, Header 8]])
        example_config [Header 7, Header 8] =
       ([GetBlock 7, Printf (Processing_block 7 2),
         Printf (Found_qualifying ''0xe1'' ''0x52908400098527886E0F7030069857D2E4169EE7'' (3 / 100)),
         Printf (Error_handling_block 7 RuntimeError),
         GetBlock 8, Printf (Processing_block 8 2),
         Printf (Found_qualifying ''0xe1'' ''0x52908400098527886E0F7030069857D2E4169EE7'' (3 / 100)),
         Printf (Error_handling_block 8 RuntimeError)], Blocks)
   \<and> program
        (example_world [example_tx 30000000000000000 ''0xe1'', example_tx 40000000000000000 ''0xe2'']
           (Some TelegramError) [Subscribed [Header 7, Header 8]])
        example_config =
      program
        (all_delivered
          (example_world [example_tx 30000000000000000 ''0xe1'', example_tx 40000000000000000 ''0xe2'']
             (Some TelegramError) [Subscribed [Header 7, Header 8]]))
        example_config"
proof -
  let ?t1 = "example_tx 30000000000000000 ''0xe1''"
  let ?t2 = "example_tx 40000000000000000 ''0xe2''"
  let ?w = "example_world [?t1, ?t2] (Some TelegramError) [Subscribed [Header 7, Header 8]]"
  let ?b = "''0x52908400098527886E0F7030069857D2E4169EE7''"
  let ?a1 = "\<lparr>amount = 3 / 100, buyer = ''0x5290...9EE7'', tx_link = ''0xe1''\<rparr>"
  let ?a2 = "\<lparr>amount = 4 / 100, buyer = ''0x5290...9EE7'', tx_link = ''0xe2''\<rparr>"
  have s: "send_photo ?w a = Some TelegramError" for a
    by (simp add: example_world_def)
  have g: "get_block ?w n = Inr [?t1, ?t2]" for n
    by (simp add: example_world_def)
  have q1: "qualifying (TOKEN_CONTRACT_ADDRESS example_config) ?t1 = Inr (Some (''0xe1'', 3 / 100, ?b))"
    and q2: "qualifying (TOKEN_CONTRACT_ADDRESS example_config) ?t2 = Inr (Some (''0xe2'', 4 / 100, ?b))"
    by (simp_all add: example_defs eval_defs)
  have sf: "\<forall>a. sent_or_failed (send_photo ?w a)"
    by (simp add: s)
  have gf: "\<forall>e'. get_block ?w n = Inl e' \<longrightarrow> is_Exception e'" for n
    by (simp add: g)
  have b1: "buy_alert ''0xe1'' (3 / 100) ?b = ?a1" and b2: "buy_alert ''0xe2'' (4 / 100) ?b = ?a2"
    by (simp_all add: buy_alert_def)
  have last: "for_tx False ?w example_config [?t2] =
       ([Printf (Found_qualifying ''0xe2'' ?b (4 / 100)), SendPhoto ?a2,
         Printf (Error_sending_alert TelegramError)], Returns)"
    by (simp add: process_tx_def q2 send_telegram_alert_result s buy_alert_def)
  have quiet: "apart_from_notifier_log (handle_new_block False (all_delivered ?w) example_config 7) =
       ([GetBlock 7, Printf (Processing_block 7 2),
         Printf (Found_qualifying ''0xe1'' ?b (3 / 100)), SendPhoto ?a1,
         Printf (Found_qualifying ''0xe2'' ?b (4 / 100)), SendPhoto ?a2], Returns)"
    by (simp add: handle_new_block_def g process_tx_def q1 q2 send_telegram_alert_result buy_alert_def)
  have in_loop: "handle_new_block True ?w example_config n =
       ([GetBlock n, Printf (Processing_block n 2),
         Printf (Found_qualifying ''0xe1'' ?b (3 / 100)),
         Printf (Error_handling_block n RuntimeError)], Returns)" for n
    by (simp add: handle_new_block_def g process_tx_in_loop q1)
  have ex: "is_Exception TelegramError"
    by simp
  note T = delivery_failure_swallowed [OF s ex, of "''0xe1''" "3 / 100" ?b example_config ?t1 "[?t2]"]
  have t1: "send_telegram_alert ?w ''0xe1'' (3 / 100) ?b =
       ([SendPhoto ?a1, Printf (Error_sending_alert TelegramError)], Returns)"
    using T [of False 7 "[]" "[]"] by (simp add: b1)
  have t2: "for_tx False ?w example_config [?t1, ?t2] =
       ([Printf (Found_qualifying ''0xe1'' ?b (3 / 100)), SendPhoto ?a1,
         Printf (Error_sending_alert TelegramError),
         Printf (Found_qualifying ''0xe2'' ?b (4 / 100)), SendPhoto ?a2,
         Printf (Error_sending_alert TelegramError)], Returns)"
    using T [of False 7 "[]" "[]"] q1 t1 last by simp
  have t3: "handle_new_block False ?w example_config 7 =
       ([GetBlock 7, Printf (Processing_block 7 2),
         Printf (Found_qualifying ''0xe1'' ?b (3 / 100)), SendPhoto ?a1,
         Printf (Error_sending_alert TelegramError),
         Printf (Found_qualifying ''0xe2'' ?b (4 / 100)), SendPhoto ?a2,
         Printf (Error_sending_alert TelegramError)], Returns)"
    using t2 by (simp add: handle_new_block_def g)
  have t4: "while_True ?w example_config [Header 7, Header 8] =
       ([GetBlock 7, Printf (Processing_block 7 2),
         Printf (Found_qualifying ''0xe1'' ?b (3 / 100)),
         Printf (Error_handling_block 7 RuntimeError),
         GetBlock 8, Printf (Processing_block 8 2),
         Printf (Found_qualifying ''0xe1'' ?b (3 / 100)),
         Printf (Error_handling_block 8 RuntimeError)], Blocks)"
  proof -
    from T [of True 7 "[Header 8]" "[]"] gf
    have "while_True ?w example_config (Header 7 # [Header 8])
            = prepend (fst (handle_new_block True ?w example_config 7))
                      (while_True ?w example_config [Header 8])"
      by blast
    moreover from T [of True 8 "[]" "[]"] gf
    have "while_True ?w example_config (Header 8 # [])
            = prepend (fst (handle_new_block True ?w example_config 8))
                      (while_True ?w example_config [])"
      by blast
    ultimately show ?thesis by (simp add: in_loop)
  qed
  have t5: "program ?w example_config = program (all_delivered ?w) example_config"
    using T [of False 7 "[]" "[]"] by blast
  from s [of "buy_alert ''0xe1'' (3 / 100) ?b"] ex t1 t3 quiet t4 t5 show ?thesis
    by (simp only: simp_thms)
qed

section \<open>The listener\<close>

text \<open>
  C6. The claim: when establishing the subscription fails, the listener retries after 5
  seconds, again and again. The program does not: after the first failure it sleeps 5
  seconds and calls \<open>asyncio.run\<close> from inside the running coroutine (line 159), which
  raises \<open>RuntimeError\<close> inside the handler. Whatever the later attempts \<open>cs\<close> would have
  given, one connection was tried, and the process ends with status 1.
\<close>

theorem retry_raises_RuntimeError:
  "listen_for_new_blocks w cfg (Refused OtherException # cs) =
     ([Print ''Connecting to QuickNode via WebSocket...'', Connect,
       Printf (Initial_connection_failed OtherException),
       Print ''Retrying connection in 5 seconds...'', Sleep 5], Raises RuntimeError)
   \<and> connects (fst (listen_for_new_blocks w cfg (Refused OtherException # cs))) = 1
   \<and> exit_status (snd (program (example_world [] None (Refused OtherException # cs)) example_config))
       = Some 1"
  by (simp add: connects_def program_def main_def example_defs)

section \<open>The start-up check\<close>

lemma missing_items_Nil_iff:
  "(missing_items cfg = []) =
     list_all truthy [TELEGRAM_BOT_TOKEN cfg, TELEGRAM_CHAT_ID cfg,
                      QUICKNODE_WSS_URL cfg, TOKEN_CONTRACT_ADDRESS cfg]"
  by (simp add: missing_items_def)

text \<open>
  C7, as the claim states it: when a required setting is missing, the process reports the
  specific missing items. It does not: lines 165-166 print one fixed text that names all
  four variables. A configuration that lacks only the chat identifier and one that lacks
  only the endpoint URL produce the same output.
\<close>

theorem report_does_not_name_missing_items:
  "missing_items (example_config\<lparr>TELEGRAM_CHAT_ID := None\<rparr>) = [''TEL_CHAT_ID'']
   \<and> missing_items (example_config\<lparr>QUICKNODE_WSS_URL := None\<rparr>) = [''QN_WSS_URL'']
   \<and> fst (program (example_world [] None []) (example_config\<lparr>TELEGRAM_CHAT_ID := None\<rparr>))
       = fst (program (example_world [] None []) (example_config\<lparr>QUICKNODE_WSS_URL := None\<rparr>))"
  by (simp add: missing_items_def example_defs program_def main_def)

text \<open>
  C7, amended. When any of the four settings is missing (unset or empty), the process ends
  with exit status 1 and starts neither the reminder timer nor the listener. If the
  \<open>Bot\<close> constructor of line 37 accepted the token, the check of line 164 is reached and
  prints its fixed two lines, which name all four variables; if the constructor raised,
  nothing of the main block runs.
\<close>

theorem missing_setting_exits_before_background_work:
  assumes "missing_items cfg \<noteq> []"
  shows "exit_status (snd (program w cfg)) = Some 1
         \<and> fst (program w cfg) =
             (if Bot_accepts w (TELEGRAM_BOT_TOKEN cfg)
              then [Print ''Error: One or more required environment variables are not set.'',
                    Print ''Please set TEL_BOT_TOKEN, TEL_CHAT_ID, QN_WSS_URL, and TOKEN_CONTRACT_ADDRESS.'']
              else [])
         \<and> TimerStart (30 * 60) \<notin> set (fst (program w cfg))
         \<and> Connect \<notin> set (fst (program w cfg))"
proof -
  from assms have "\<not> list_all truthy [TELEGRAM_BOT_TOKEN cfg, TELEGRAM_CHAT_ID cfg,
                      QUICKNODE_WSS_URL cfg, TOKEN_CONTRACT_ADDRESS cfg]"
    by (simp only: missing_items_Nil_iff not_False_eq_True)
  then have "main w cfg =
     ([Print ''Error: One or more required environment variables are not set.'',
       Print ''Please set TEL_BOT_TOKEN, TEL_CHAT_ID, QN_WSS_URL, and TOKEN_CONTRACT_ADDRESS.''],
      Raises (SystemExit 1))"
    by (simp add: main_def)
  then show ?thesis by (simp add: program_def)
qed

theorem missing_setting_witness:
  "missing_items (example_config\<lparr>TELEGRAM_BOT_TOKEN := None\<rparr>) = [''TEL_BOT_TOKEN'']
   \<and> program (example_world [] None []) (example_config\<lparr>TELEGRAM_BOT_TOKEN := None\<rparr>)
       = ([], Raises OtherException)
   \<and> exit_status (snd (program (example_world [] None []) (example_config\<lparr>TELEGRAM_BOT_TOKEN := None\<rparr>)))
       = Some 1
   \<and> missing_items (example_config\<lparr>TOKEN_CONTRACT_ADDRESS := Some ''''\<rparr>) = [''TOKEN_CONTRACT_ADDRESS'']
   \<and> program (example_world [] None []) (example_config\<lparr>TOKEN_CONTRACT_ADDRESS := Some ''''\<rparr>)
       = ([Print ''Error: One or more required environment variables are not set.'',
           Print ''Please set TEL_BOT_TOKEN, TEL_CHAT_ID, QN_WSS_URL, and TOKEN_CONTRACT_ADDRESS.''],
          Raises (SystemExit 1))
   \<and> exit_status (snd (program (example_world [] None []) (example_config\<lparr>TOKEN_CONTRACT_ADDRESS := Some ''''\<rparr>)))
       = Some 1"
proof -
  have m1: "missing_items (example_config\<lparr>TELEGRAM_BOT_TOKEN := None\<rparr>) = [''TEL_BOT_TOKEN'']"
    and m2: "missing_items (example_config\<lparr>TOKEN_CONTRACT_ADDRESS := Some ''''\<rparr>) = [''TOKEN_CONTRACT_ADDRESS'']"
    by (simp_all add: missing_items_def example_config_def)
  have n1: "missing_items (example_config\<lparr>TELEGRAM_BOT_TOKEN := None\<rparr>) \<noteq> []"
    and n2: "missing_items (example_config\<lparr>TOKEN_CONTRACT_ADDRESS := Some ''''\<rparr>) \<noteq> []"
    by (simp_all only: m1 m2 list.distinct not_False_eq_True)
  have b1: "\<not> Bot_accepts (example_world [] None []) (TELEGRAM_BOT_TOKEN (example_config\<lparr>TELEGRAM_BOT_TOKEN := None\<rparr>))"
    and b2: "Bot_accepts (example_world [] None []) (TELEGRAM_BOT_TOKEN (example_config\<lparr>TOKEN_CONTRACT_ADDRESS := Some ''''\<rparr>))"
    by (simp_all add: example_defs)
  have s1: "snd (program (example_world [] None []) (example_config\<lparr>TELEGRAM_BOT_TOKEN := None\<rparr>)) = Raises OtherException"
    using b1 by (simp add: program_def)
  have s2: "snd (program (example_world [] None []) (example_config\<lparr>TOKEN_CONTRACT_ADDRESS := Some ''''\<rparr>)) = Raises (SystemExit 1)"
    using b2 by (simp add: program_def main_def example_config_def)
  from missing_setting_exits_before_background_work [OF n1, of "example_world [] None []"]
       missing_setting_exits_before_background_work [OF n2, of "example_world [] None []"]
       m1 m2 b1 b2 s1 s2
  show ?thesis by (simp add: prod_eq_iff)
qed

section \<open>The reminder timer\<close>

lemma send_reminder_result:
  "send_reminder res =
     (case res of
        None \<Rightarrow> ([SendMessage, Print ''Sent 30-minute reminder.'', TimerStart (30 * 60)], Returns)
      | Some e \<Rightarrow>
          if e = TelegramError
          then ([SendMessage, Printf (Error_sending_reminder e), TimerStart (30 * 60)], Returns)
          else if is_Exception e
          then ([SendMessage, Printf (Unexpected_error_reminder e), TimerStart (30 * 60)], Returns)
          else ([SendMessage], Raises e))"
  by (simp add: send_reminder_def split: option.splits)

lemma timers_send_reminder:
  "timers (stamp d t (fst (send_reminder res))) = (if sent_or_failed res then [t + d + 30 * 60] else [])"
  by (cases res) (simp_all add: send_reminder_result)

lemma firing_step:
  "firing att s i = Some t \<Longrightarrow> sent_or_failed (result (att i)) \<Longrightarrow>
     firing att s (Suc i) = Some (t + duration (att i) + 30 * 60)"
  by (simp add: timers_send_reminder)

lemma firing_defined:
  "\<forall>j < i. sent_or_failed (result (att j)) \<Longrightarrow> \<exists>t. firing att s i = Some t"
proof (induction i)
  case 0
  show ?case by simp
next
  case (Suc i)
  then obtain t where "firing att s i = Some t" by auto
  moreover from Suc.prems have "sent_or_failed (result (att i))" by simp
  ultimately show ?case using firing_step by blast
qed

text \<open>
  C8, as the claim states it: consecutive firings of the reminder are exactly 30 minutes
  apart. They are not when sending takes time: with sends of 2 seconds, the first firing
  is at 1800 and the second at 3602, which is 1802 later.
\<close>

theorem reminder_gap_exceeds_period:
  "firing example_attempts 0 0 = Some 1800
   \<and> firing example_attempts 0 1 = Some 3602
   \<and> (3602 :: rat) - 1800 \<noteq> 30 * 60"
  by (simp add: example_attempts_def timers_send_reminder)

text \<open>
  C8, amended. As long as every send so far succeeded or failed with an \<open>Exception\<close>, the
  next firing exists and comes 30 minutes after the end of the current send attempt: the
  gap between firing \<open>i\<close> and firing \<open>i + 1\<close> is the time the send of firing \<open>i\<close> took plus
  \<open>30 * 60\<close> seconds, whether that send succeeded or failed.
\<close>

theorem reminder_gap_is_period_plus_send_time:
  assumes "\<forall>j \<le> i. sent_or_failed (result (att j))"
  shows "\<exists>t. firing att s i = Some t
           \<and> firing att s (Suc i) = Some (t + duration (att i) + 30 * 60)"
proof -
  from assms have "\<forall>j < i. sent_or_failed (result (att j))" by simp
  then obtain t where t: "firing att s i = Some t" using firing_defined by blast
  moreover from assms have "sent_or_failed (result (att i))" by simp
  ultimately have "firing att s (Suc i) = Some (t + duration (att i) + 30 * 60)"
    by (rule firing_step)
  with t show ?thesis by blast
qed

theorem reminder_gap_witness:
  "sent_or_failed (result (example_attempts 0))
   \<and> sent_or_failed (result (example_attempts 1))
   \<and> result (example_attempts 1) = Some TelegramError
   \<and> firing example_attempts 0 1 = Some 3602
   \<and> firing example_attempts 0 2 = Some (3602 + duration (example_attempts 1) + 30 * 60)
   \<and> firing example_attempts 0 2 = Some 5404"
proof -
  have h: "\<forall>j \<le> 1. sent_or_failed (result (example_attempts j))"
    by (simp add: example_attempts_def)
  have f1: "firing example_attempts 0 1 = Some 3602"
    by (simp add: example_attempts_def timers_send_reminder)
  from reminder_gap_is_period_plus_send_time [OF h, of 0]
  obtain t where t: "firing example_attempts 0 1 = Some t"
    and n: "firing example_attempts 0 (Suc 1) = Some (t + duration (example_attempts 1) + 30 * 60)"
    by blast
  from t f1 have "t = 3602" by simp
  with n have f2: "firing example_attempts 0 2 = Some (3602 + duration (example_attempts 1) + 30 * 60)"
    by (simp only: Suc_1)
  have r: "result (example_attempts 0) = None" "result (example_attempts 1) = Some TelegramError"
    "duration (example_attempts 1) = 2"
    by (simp_all add: example_attempts_def)
  from f1 f2 r show ?thesis by (simp only: sent_or_failed.simps is_Exception.simps) simp
qed


text \<open>
  No function that the main thread runs sends the reminder message: an effect that occurs
  in no part of a sequence, of a \<open>try\<close> or of an \<open>asyncio.run\<close> does not occur in the whole.
\<close>

lemma not_in_prepend:
  "x \<notin> set es \<Longrightarrow> x \<notin> set (fst r) \<Longrightarrow> x \<notin> set (fst (prepend es r))"
  by simp

lemma not_in_seq:
  "x \<notin> set (fst a) \<Longrightarrow> x \<notin> set (fst b) \<Longrightarrow> x \<notin> set (fst (seq a b))"
  by (cases "snd a") (simp_all add: seq_def)

lemma not_in_try_except:
  "x \<notin> set (fst body) \<Longrightarrow> (\<And>e r. h e = Some r \<Longrightarrow> x \<notin> set (fst r)) \<Longrightarrow>
     x \<notin> set (fst (try_except body h))"
  by (cases "snd body") (auto simp: try_except_def split: option.splits)

lemma not_in_asyncio_run:
  "x \<notin> set (fst coro) \<Longrightarrow> x \<notin> set (fst (asyncio_run running coro))"
  by (simp add: asyncio_run_def)

lemma no_SendMessage_process_tx: "SendMessage \<notin> set (fst (process_tx running w cfg t))"
  by (cases running)
     (auto simp: process_tx_def send_telegram_alert_result split: sum.splits option.splits)

lemma no_SendMessage_for_tx: "SendMessage \<notin> set (fst (for_tx running w cfg ts))"
  by (induction ts) (simp_all add: not_in_seq no_SendMessage_process_tx)

lemma no_SendMessage_handle_new_block:
  "SendMessage \<notin> set (fst (handle_new_block running w cfg n))"
  unfolding handle_new_block_def
  by (rule not_in_try_except)
     (auto simp: no_SendMessage_for_tx split: sum.splits if_splits)

lemma no_SendMessage_while_True: "SendMessage \<notin> set (fst (while_True w cfg rs))"
proof (induction rs)
  case Nil
  show ?case by simp
next
  case (Cons r rs)
  show ?case
  proof (cases r)
    case (Header n)
    with Cons no_SendMessage_handle_new_block [of True w cfg n] show ?thesis
      by (cases "snd (handle_new_block True w cfg n)") (simp_all add: Let_def)
  next
    case (Receive_raises e)
    with Cons show ?thesis by (simp add: Let_def)
  qed
qed

lemma no_SendMessage_listen: "SendMessage \<notin> set (fst (listen_for_new_blocks w cfg cs))"
proof (cases cs)
  case Nil
  then show ?thesis by simp
next
  case (Cons c cs')
  have "SendMessage \<notin> set (fst (try_except
          (case c of
             Refused e \<Rightarrow> ([Connect], Raises e)
           | Subscribed rs \<Rightarrow> prepend [Connect] (while_True w cfg rs))
          (\<lambda>e. if is_Exception e
               then Some (seq ([Printf (Initial_connection_failed e),
                                Print ''Retrying connection in 5 seconds...'',
                                Sleep 5], Returns)
                              (asyncio_run True (listen_for_new_blocks w cfg cs')))
               else None)))"
    by (rule not_in_try_except) (auto simp: no_SendMessage_while_True split: conn.splits if_splits)
  with Cons show ?thesis by simp
qed

lemma no_SendMessage_main: "SendMessage \<notin> set (fst (main w cfg))"
  unfolding main_def
  by (auto intro!: not_in_seq not_in_try_except simp: no_SendMessage_listen split: sum.splits if_splits)

lemma no_SendMessage_program: "SendMessage \<notin> set (fst (program w cfg))"
  unfolding program_def by (rule not_in_seq) (simp_all add: no_SendMessage_main)

lemma stamp_send_reminder:
  "take 1 (stamp d t (fst (send_reminder res))) = [(t, SendMessage)]
   \<and> filter (\<lambda>(t', e). e = TimerStart (30 * 60)) (stamp d t (fst (send_reminder res)))
       = (if sent_or_failed res then [(t + d, TimerStart (30 * 60))] else [])"
  by (cases res) (simp_all add: send_reminder_result)

text \<open>
  C10. No reminder is sent at start-up: the main thread never sends the reminder
  message, and a start-up that passes its checks starts the timer with \<open>30 * 60\<close> seconds
  before it enters the listener, so the first firing is a full interval after the timer
  was started at \<open>s\<close>. In every firing the send is the first thing that happens, and the
  next timer is started at the time the send attempt has ended (\<open>t + d\<close>), if it is
  started at all.
\<close>

theorem no_reminder_before_first_interval:
  "SendMessage \<notin> set (fst (program w cfg))
   \<and> (missing_items cfg = [] \<and> Bot_accepts w (TELEGRAM_BOT_TOKEN cfg) \<and> http_provider w = Inr True \<longrightarrow>
        fst (program w cfg) =
          [Print ''Bot is starting...'', HttpConnect,
           Print ''Starting 30-minute reminder timer...'', TimerStart (30 * 60),
           Print ''Starting blockchain listener...'']
          @ fst (listen_for_new_blocks w cfg (websocket w)))
   \<and> firing att s 0 = Some (s + 30 * 60)
   \<and> take 1 (stamp d t (fst (send_reminder res))) = [(t, SendMessage)]
   \<and> filter (\<lambda>(t', e). e = TimerStart (30 * 60)) (stamp d t (fst (send_reminder res)))
       = (if sent_or_failed res then [(t + d, TimerStart (30 * 60))] else [])"
proof -
  have "fst (program w cfg) =
          [Print ''Bot is starting...'', HttpConnect,
           Print ''Starting 30-minute reminder timer...'', TimerStart (30 * 60),
           Print ''Starting blockchain listener...'']
          @ fst (listen_for_new_blocks w cfg (websocket w))"
    if "missing_items cfg = []" "Bot_accepts w (TELEGRAM_BOT_TOKEN cfg)" "http_provider w = Inr True"
  proof -
    from that(1) have "list_all truthy [TELEGRAM_BOT_TOKEN cfg, TELEGRAM_CHAT_ID cfg,
                      QUICKNODE_WSS_URL cfg, TOKEN_CONTRACT_ADDRESS cfg]"
      by (simp only: missing_items_Nil_iff)
    with that(2,3) show ?thesis by (simp add: program_def main_def)
  qed
  with no_SendMessage_program [of w cfg] stamp_send_reminder [of d t res]
  show ?thesis by simp
qed

theorem no_reminder_before_first_interval_witness:
  "missing_items example_config = []
   \<and> Bot_accepts (example_world [] None [Subscribed []]) (TELEGRAM_BOT_TOKEN example_config)
   \<and> http_provider (example_world [] None [Subscribed []]) = Inr True
   \<and> fst (program (example_world [] None [Subscribed []]) example_config) =
       [Print ''Bot is starting...'', HttpConnect,
        Print ''Starting 30-minute reminder timer...'', TimerStart 1800,
        Print ''Starting blockchain listener...'',
        Print ''Connecting to QuickNode via WebSocket...'', Connect]
   \<and> firing example_attempts 0 0 = Some 1800
   \<and> stamp 2 1800 (fst (send_reminder (Some TelegramError)))
       = [(1800, SendMessage), (1802, Printf (Error_sending_reminder TelegramError)),
          (1802, TimerStart 1800)]"
proof -
  let ?w = "example_world [] None [Subscribed []]"
  have h: "missing_items example_config = []" "Bot_accepts ?w (TELEGRAM_BOT_TOKEN example_config)"
      "http_provider ?w = Inr True"
    by (simp_all add: missing_items_def example_defs)
  have l: "fst (listen_for_new_blocks ?w example_config (websocket ?w))
             = [Print ''Connecting to QuickNode via WebSocket...'', Connect]"
    by (simp add: example_world_def)
  have s: "stamp 2 1800 (fst (send_reminder (Some TelegramError)))
       = [(1800, SendMessage), (1802, Printf (Error_sending_reminder TelegramError)),
          (1802, TimerStart 1800)]"
    by (simp add: send_reminder_result)
  from no_reminder_before_first_interval [of ?w example_config example_attempts 0 2 1800 "Some TelegramError"]
       h l s
  show ?thesis by simp
qed

end
